theory Spec2Isabelle
  imports Main "HOL-Library.Sublist"
begin

section \<open>Errors, log messages and effects\<close>

text \<open>
  A JavaScript error object, as far as \<^verbatim>\<open>index.ts\<close> looks at it: its \<^verbatim>\<open>name\<close> and its
  \<^verbatim>\<open>message\<close>. The catch blocks tell error kinds apart by comparing the name. Every
  thrown value is taken to be such an object.
\<close>

datatype js_error = JsError (err_name: string) (err_message: string)

text \<open>The two error classes of \<^verbatim>\<open>index.ts\<close> and the built-in \<^verbatim>\<open>Error\<close>.\<close>

definition ValidationError :: "string \<Rightarrow> js_error" where
  "ValidationError message = JsError ''ValidationError'' message"

definition ReserveCacheError :: "string \<Rightarrow> js_error" where
  "ReserveCacheError message = JsError ''ReserveCacheError'' message"

definition PlainError :: "string \<Rightarrow> js_error" where
  "PlainError message = JsError ''Error'' message"

text \<open>
  What a template literal makes of an error object (\<^verbatim>\<open>Error.prototype.toString\<close>).
\<close>

definition error_toString :: "js_error \<Rightarrow> string" where
  "error_toString e =
     (if err_name e = [] then err_message e
      else if err_message e = [] then err_name e
      else err_name e @ '': '' @ err_message e)"

text \<open>
  The calls that \<^verbatim>\<open>index.ts\<close> makes to the helpers of \<^verbatim>\<open>internal/cacheUtils\<close> and
  \<^verbatim>\<open>internal/tar\<close>, with their arguments. \<open>'c\<close> is the type of compression methods.
\<close>

datatype 'c call =
    GetCompressionMethod
  | GetRepoCacheStorePath "string option"
  | GetCacheFileName 'c
  | ResolvePaths "string list"
  | CreateTempDirectory
  | CreateTar string "string list" 'c
  | ListTar string 'c
  | ExtractTar string 'c
  | GetArchiveFileSizeInBytes string
  | StoreCacheFile string string
  | UnlinkFile string

text \<open>
  What an operation leaves behind besides its result: the messages given to
  \<^verbatim>\<open>core.debug\<close>, \<^verbatim>\<open>core.info\<close> and \<^verbatim>\<open>core.warning\<close>, and the helper calls, in the
  order in which they happen.
\<close>

datatype 'c event = Debug string | Info string | Warning string | Call "'c call"

text \<open>The two fields of \<^verbatim>\<open>fs.Stats\<close> that are read: \<^verbatim>\<open>isFile()\<close> and \<^verbatim>\<open>mtime.getTime()\<close>.\<close>

record fs_Stats =
  isFile :: bool
  mtime :: int

text \<open>The object \<^verbatim>\<open>{ filePath, stats }\<close> built while scanning the store.\<close>

record cacheFileInfo =
  filePath :: string
  stats :: fs_Stats

text \<open>
  The collaborators of \<^verbatim>\<open>index.ts\<close>. None of them is defined there, so each is a
  parameter: the helpers of \<^verbatim>\<open>internal/cacheUtils\<close> and \<^verbatim>\<open>internal/tar\<close> may fail and
  may change the world \<open>'w\<close> (the file system and the process around it); the three
  \<^verbatim>\<open>fs\<close> functions only read it; \<^verbatim>\<open>path.join\<close> and \<^verbatim>\<open>JSON.stringify\<close> are functions of
  their arguments; \<^verbatim>\<open>core.isDebug()\<close> is fixed during one call.
\<close>

record ('w, 'c) env =
  getCompressionMethod :: "'w \<Rightarrow> (js_error + 'c) \<times> 'w"
  getRepoCacheStorePath :: "string option \<Rightarrow> 'w \<Rightarrow> (js_error + string) \<times> 'w"
  getCacheFileName :: "'c \<Rightarrow> 'w \<Rightarrow> (js_error + string) \<times> 'w"
  resolvePaths :: "string list \<Rightarrow> 'w \<Rightarrow> (js_error + string list) \<times> 'w"
  createTempDirectory :: "'w \<Rightarrow> (js_error + string) \<times> 'w"
  getArchiveFileSizeInBytes :: "string \<Rightarrow> 'w \<Rightarrow> (js_error + nat) \<times> 'w"
  storeCacheFile :: "string \<Rightarrow> string \<Rightarrow> 'w \<Rightarrow> (js_error + unit) \<times> 'w"
  unlinkFile :: "string \<Rightarrow> 'w \<Rightarrow> (js_error + unit) \<times> 'w"
  createTar :: "string \<Rightarrow> string list \<Rightarrow> 'c \<Rightarrow> 'w \<Rightarrow> (js_error + unit) \<times> 'w"
  listTar :: "string \<Rightarrow> 'c \<Rightarrow> 'w \<Rightarrow> (js_error + unit) \<times> 'w"
  extractTar :: "string \<Rightarrow> 'c \<Rightarrow> 'w \<Rightarrow> (js_error + unit) \<times> 'w"
  readdirSync :: "string \<Rightarrow> 'w \<Rightarrow> js_error + string list"
  existsSync :: "string \<Rightarrow> 'w \<Rightarrow> bool"
  statSync :: "string \<Rightarrow> 'w \<Rightarrow> js_error + fs_Stats"
  path_join :: "string list \<Rightarrow> string"
  JSON_stringify :: "string list \<Rightarrow> string"
  isDebug :: bool

text \<open>
  A computation: from a world to a result (\<open>Inl\<close> a thrown error, \<open>Inr\<close> a value), the
  world afterwards and the events of the computation.
\<close>

type_synonym ('w, 'c, 'a) io = "'w \<Rightarrow> (js_error + 'a) \<times> 'w \<times> 'c event list"

definition io_return :: "'a \<Rightarrow> ('w, 'c, 'a) io" where
  "io_return x w = (Inr x, w, [])"

definition io_throw :: "js_error \<Rightarrow> ('w, 'c, 'a) io" where
  "io_throw e w = (Inl e, w, [])"

definition io_lift :: "js_error + 'a \<Rightarrow> ('w, 'c, 'a) io" where
  "io_lift r w = (r, w, [])"

definition io_read :: "('w \<Rightarrow> js_error + 'a) \<Rightarrow> ('w, 'c, 'a) io" where
  "io_read f w = (f w, w, [])"

definition io_log :: "'c event \<Rightarrow> ('w, 'c, unit) io" where
  "io_log ev w = (Inr (), w, [ev])"

definition invoke :: "'c call \<Rightarrow> ('w \<Rightarrow> (js_error + 'a) \<times> 'w) \<Rightarrow> ('w, 'c, 'a) io" where
  "invoke c f w = (case f w of (r, w') \<Rightarrow> (r, w', [Call c]))"

text \<open>Sequencing: a thrown error skips the rest.\<close>

definition io_bind :: "('w, 'c, 'a) io \<Rightarrow> ('a \<Rightarrow> ('w, 'c, 'b) io) \<Rightarrow> ('w, 'c, 'b) io" where
  "io_bind m f w =
     (case m w of
        (Inl e, w1, ev1) \<Rightarrow> (Inl e, w1, ev1)
      | (Inr x, w1, ev1) \<Rightarrow> (case f x w1 of (r, w2, ev2) \<Rightarrow> (r, w2, ev1 @ ev2)))"

text \<open>\<^verbatim>\<open>try { m } catch (e) { h e }\<close>\<close>

definition io_catch :: "('w, 'c, 'a) io \<Rightarrow> (js_error \<Rightarrow> ('w, 'c, 'a) io) \<Rightarrow> ('w, 'c, 'a) io" where
  "io_catch m h w =
     (case m w of
        (Inl e, w1, ev1) \<Rightarrow> (case h e w1 of (r, w2, ev2) \<Rightarrow> (r, w2, ev1 @ ev2))
      | (Inr x, w1, ev1) \<Rightarrow> (Inr x, w1, ev1))"

text \<open>
  \<^verbatim>\<open>try { m } finally { f }\<close>: \<open>f\<close> runs whatever \<open>m\<close> did; the outcome is that of \<open>m\<close>
  unless \<open>f\<close> throws.
\<close>

definition io_finally :: "('w, 'c, 'a) io \<Rightarrow> ('w, 'c, unit) io \<Rightarrow> ('w, 'c, 'a) io" where
  "io_finally m f w =
     (case m w of (r, w1, ev1) \<Rightarrow>
        (case f w1 of
           (Inl e, w2, ev2) \<Rightarrow> (Inl e, w2, ev1 @ ev2)
         | (Inr u, w2, ev2) \<Rightarrow> (r, w2, ev1 @ ev2)))"

section \<open>Validation\<close>

text \<open>\<^verbatim>\<open>checkPaths\<close>; \<open>None\<close> is a missing (\<^verbatim>\<open>undefined\<close>) argument.\<close>

definition checkPaths :: "string list option \<Rightarrow> js_error + unit" where
  "checkPaths paths =
     (case paths of
        None \<Rightarrow> Inl (ValidationError
          ''Path Validation Error: At least one directory or file path is required'')
      | Some ps \<Rightarrow>
          if length ps = 0
          then Inl (ValidationError
            ''Path Validation Error: At least one directory or file path is required'')
          else Inr ())"

text \<open>
  \<^verbatim>\<open>checkKey\<close>. The regular expression \<^verbatim>\<open>/^[^,]*$/\<close> matches exactly the strings without
  a comma.
\<close>

definition checkKey :: "string \<Rightarrow> js_error + unit" where
  "checkKey key =
     (if length key > 512
      then Inl (ValidationError
        (''Key Validation Error: '' @ key @ '' cannot be larger than 512 characters.''))
      else if \<not> list_all (\<lambda>c. c \<noteq> CHR '','') key
      then Inl (ValidationError
        (''Key Validation Error: '' @ key @ '' cannot contain commas.''))
      else Inr ())"

text \<open>\<^verbatim>\<open>for (const key of keys) { checkKey(key); }\<close>\<close>

fun checkKeys :: "string list \<Rightarrow> js_error + unit" where
  "checkKeys [] = Inr ()"
| "checkKeys (key # keys) =
     (case checkKey key of Inl e \<Rightarrow> Inl e | Inr u \<Rightarrow> checkKeys keys)"

section \<open>Restore\<close>

text \<open>\<^verbatim>\<open>.map(filePath => { const stats = fs.statSync(filePath); return { filePath, stats }; })\<close>:
  the first \<^verbatim>\<open>statSync\<close> that throws ends the whole scan.\<close>

fun statAll :: "('w, 'c) env \<Rightarrow> 'w \<Rightarrow> string list \<Rightarrow> js_error + cacheFileInfo list" where
  "statAll env w [] = Inr []"
| "statAll env w (p # ps) =
     (case statSync env p w of
        Inl e \<Rightarrow> Inl e
      | Inr s \<Rightarrow>
          (case statAll env w ps of
             Inl e \<Rightarrow> Inl e
           | Inr cs \<Rightarrow> Inr (\<lparr>filePath = p, stats = s\<rparr> # cs)))"

text \<open>
  The candidates of one key (\<^verbatim>\<open>matchedCaches\<close>): directory names starting with the key,
  joined to the archive's path, kept when the path exists and is a regular file, most
  recently modified first. \<^verbatim>\<open>Array.prototype.sort\<close> is stable, as \<open>sort_key\<close> is.
\<close>

definition matchedCaches ::
  "('w, 'c) env \<Rightarrow> 'w \<Rightarrow> string \<Rightarrow> string \<Rightarrow> string list \<Rightarrow> string \<Rightarrow> js_error + cacheFileInfo list"
where
  "matchedCaches env w repoCachePath cacheFileName dirEntries key =
     (case statAll env w
             (filter (\<lambda>it. existsSync env it w)
               (map (\<lambda>dir. path_join env [repoCachePath, dir, cacheFileName])
                 (filter (\<lambda>it. prefix key it) dirEntries))) of
        Inl e \<Rightarrow> Inl e
      | Inr infos \<Rightarrow>
          Inr (sort_key (\<lambda>a. - mtime (stats a)) (filter (\<lambda>it. isFile (stats it)) infos)))"

text \<open>
  The loop over the keys. It starts from \<^verbatim>\<open>matchedKey = ""\<close>, \<^verbatim>\<open>archivePath = ""\<close> and
  stops (\<^verbatim>\<open>break\<close>) at the first key with a candidate (\<^verbatim>\<open>matchedCaches.at(0)\<close>); the pair
  returned is (\<^verbatim>\<open>matchedKey\<close>, \<^verbatim>\<open>archivePath\<close>) after the loop.
\<close>

fun scanKeys ::
  "('w, 'c) env \<Rightarrow> 'w \<Rightarrow> string \<Rightarrow> string \<Rightarrow> string list \<Rightarrow> string list \<Rightarrow> js_error + string \<times> string"
where
  "scanKeys env w repoCachePath cacheFileName dirEntries [] = Inr ('''', '''')"
| "scanKeys env w repoCachePath cacheFileName dirEntries (key # keys) =
     (case matchedCaches env w repoCachePath cacheFileName dirEntries key of
        Inl e \<Rightarrow> Inl e
      | Inr [] \<Rightarrow> scanKeys env w repoCachePath cacheFileName dirEntries keys
      | Inr (cacheFileInfo # rest) \<Rightarrow> Inr (key, filePath cacheFileInfo))"

text \<open>
  The decimal digits of a number, as a template literal prints an integer below
  \<open>10\<^sup>2\<^sup>1\<close> (a file size is far below).
\<close>

definition digit_char :: "nat \<Rightarrow> char" where
  "digit_char d = ''0123456789'' ! d"

fun string_of_nat :: "nat \<Rightarrow> string" where
  "string_of_nat n =
     (if 10 \<le> n then string_of_nat (n div 10) @ [digit_char (n mod 10)]
      else [digit_char n])"

declare string_of_nat.simps [simp del]

text \<open>
  \<^verbatim>\<open>Math.round(archiveFileSize / (1024 * 1024))\<close> for a size in bytes: the division by a
  power of two is exact, and \<^verbatim>\<open>Math.round\<close> rounds halves up.
\<close>

definition round_MB :: "nat \<Rightarrow> nat" where
  "round_MB archiveFileSize = (archiveFileSize + 524288) div 1048576"

text \<open>The body of the \<^verbatim>\<open>try\<close> block of \<^verbatim>\<open>restoreCache\<close> (lines 82 to 126).\<close>

definition restore_try ::
  "('w, 'c) env \<Rightarrow> string list \<Rightarrow> 'c \<Rightarrow> string \<Rightarrow> string \<Rightarrow> ('w, 'c, string option) io"
where
  "restore_try env keys compressionMethod repoCachePath cacheFileName =
     io_bind (io_read (readdirSync env repoCachePath)) (\<lambda>dirEntries.
     io_bind (io_read (\<lambda>w. scanKeys env w repoCachePath cacheFileName dirEntries keys))
       (\<lambda>(matchedKey, archivePath).
     if matchedKey = '''' then io_return None
     else
       io_bind (io_log (Debug (''Archive Path: '' @ archivePath))) (\<lambda>_.
       io_bind (if isDebug env
                then invoke (ListTar archivePath compressionMethod)
                       (listTar env archivePath compressionMethod)
                else io_return ()) (\<lambda>_.
       io_bind (invoke (GetArchiveFileSizeInBytes archivePath)
                  (getArchiveFileSizeInBytes env archivePath)) (\<lambda>archiveFileSize.
       io_bind (io_log (Info (''Cache Size: ~'' @ string_of_nat (round_MB archiveFileSize)
                  @ '' MB ('' @ string_of_nat archiveFileSize @ '' B)''))) (\<lambda>_.
       io_bind (invoke (ExtractTar archivePath compressionMethod)
                  (extractTar env archivePath compressionMethod)) (\<lambda>_.
       io_bind (io_log (Info ''Cache restored successfully'')) (\<lambda>_.
       io_return (Some matchedKey)))))))))"

text \<open>
  The \<^verbatim>\<open>catch\<close> block of \<^verbatim>\<open>restoreCache\<close>: an error named \<^verbatim>\<open>ValidationError\<close> is thrown
  again; any other is logged as a warning, and control reaches the final
  \<^verbatim>\<open>return undefined\<close>. The \<^verbatim>\<open>finally\<close> block is empty (its body is commented out).
\<close>

definition restore_catch :: "js_error \<Rightarrow> ('w, 'c, string option) io" where
  "restore_catch error =
     (if err_name error = ''ValidationError'' then io_throw error
      else io_bind (io_log (Warning (''Failed to restore: '' @ err_message error)))
             (\<lambda>_. io_return None))"

text \<open>
  Lines 78 to 80 of \<^verbatim>\<open>restoreCache\<close>, which stand before its \<^verbatim>\<open>try\<close> block: the
  compression method, the store's root and the archive's file name.
\<close>

definition restore_prepare :: "('w, 'c) env \<Rightarrow> string option \<Rightarrow> ('w, 'c, 'c \<times> string \<times> string) io" where
  "restore_prepare env cacheBasePath =
     io_bind (invoke GetCompressionMethod (getCompressionMethod env)) (\<lambda>compressionMethod.
     io_bind (invoke (GetRepoCacheStorePath cacheBasePath)
                (getRepoCacheStorePath env cacheBasePath)) (\<lambda>repoCachePath.
     io_bind (invoke (GetCacheFileName compressionMethod)
                (getCacheFileName env compressionMethod)) (\<lambda>cacheFileName.
     io_return (compressionMethod, repoCachePath, cacheFileName))))"

text \<open>
  \<^verbatim>\<open>restoreCache\<close>. A missing \<^verbatim>\<open>restoreKeys\<close> or \<^verbatim>\<open>cacheBasePath\<close> is \<open>None\<close>; the result
  \<open>Inr None\<close> is \<^verbatim>\<open>undefined\<close>.
\<close>

definition restoreCache ::
  "('w, 'c) env \<Rightarrow> string list option \<Rightarrow> string \<Rightarrow> string list option \<Rightarrow> string option
     \<Rightarrow> ('w, 'c, string option) io"
where
  "restoreCache env paths primaryKey restoreKeys cacheBasePath =
     io_bind (io_lift (checkPaths paths)) (\<lambda>_.
     let keys = primaryKey # (case restoreKeys of None \<Rightarrow> [] | Some rs \<Rightarrow> rs) in
     io_bind (io_log (Debug ''Resolved Keys:'')) (\<lambda>_.
     io_bind (io_log (Debug (JSON_stringify env keys))) (\<lambda>_.
     if length keys > 10
     then io_throw (ValidationError
            ''Key Validation Error: Keys are limited to a maximum of 10.'')
     else
       io_bind (io_lift (checkKeys keys)) (\<lambda>_.
       io_bind (restore_prepare env cacheBasePath)
         (\<lambda>(compressionMethod, repoCachePath, cacheFileName).
       io_catch (restore_try env keys compressionMethod repoCachePath cacheFileName)
         restore_catch)))))"

section \<open>Save\<close>

text \<open>The body of the \<^verbatim>\<open>try\<close> block of \<^verbatim>\<open>saveCache\<close> (lines 184 to 200).\<close>

definition save_try ::
  "('w, 'c) env \<Rightarrow> string list \<Rightarrow> 'c \<Rightarrow> string \<Rightarrow> string \<Rightarrow> string \<Rightarrow> string option
     \<Rightarrow> ('w, 'c, int) io"
where
  "save_try env cachePaths compressionMethod archiveFolder archivePath key cacheBasePath =
     io_bind (invoke (CreateTar archiveFolder cachePaths compressionMethod)
                (createTar env archiveFolder cachePaths compressionMethod)) (\<lambda>_.
     io_bind (if isDebug env
              then invoke (ListTar archivePath compressionMethod)
                     (listTar env archivePath compressionMethod)
              else io_return ()) (\<lambda>_.
     io_bind (invoke (GetArchiveFileSizeInBytes archivePath)
                (getArchiveFileSizeInBytes env archivePath)) (\<lambda>archiveFileSize.
     io_bind (io_log (Debug (''File Size: '' @ string_of_nat archiveFileSize))) (\<lambda>_.
     io_bind (io_log (Debug (''Saving Cache (Key: '' @ key @ '')''))) (\<lambda>_.
     io_bind (invoke (GetRepoCacheStorePath cacheBasePath)
                (getRepoCacheStorePath env cacheBasePath)) (\<lambda>repoCachePath.
     let cacheStorePath = path_join env [repoCachePath, key] in
     io_bind (io_log (Debug (''Cache Store Path: ''
                @ (case cacheBasePath of None \<Rightarrow> ''undefined'' | Some b \<Rightarrow> b)))) (\<lambda>_.
     io_bind (invoke (StoreCacheFile archivePath cacheStorePath)
                (storeCacheFile env archivePath cacheStorePath)) (\<lambda>_.
     io_return 1))))))))"

text \<open>
  The \<^verbatim>\<open>catch\<close> block of \<^verbatim>\<open>saveCache\<close>: an error named \<^verbatim>\<open>ValidationError\<close> is thrown
  again; one named \<^verbatim>\<open>ReserveCacheError\<close> is logged with \<^verbatim>\<open>core.info\<close>, any other with
  \<^verbatim>\<open>core.warning\<close>, and the function returns \<open>-1\<close>.
\<close>

definition save_catch :: "js_error \<Rightarrow> ('w, 'c, int) io" where
  "save_catch error =
     (if err_name error = ''ValidationError'' then io_throw error
      else
        io_bind (if err_name error = ''ReserveCacheError''
                 then io_log (Info (''Failed to save: '' @ err_message error))
                 else io_log (Warning (''Failed to save: '' @ err_message error))) (\<lambda>_.
        io_return (- 1)))"

text \<open>The \<^verbatim>\<open>finally\<close> block of \<^verbatim>\<open>saveCache\<close>: delete the archive; a failure is only logged.\<close>

definition save_finally :: "('w, 'c) env \<Rightarrow> string \<Rightarrow> ('w, 'c, unit) io" where
  "save_finally env archivePath =
     io_catch (invoke (UnlinkFile archivePath) (unlinkFile env archivePath))
       (\<lambda>error. io_log (Debug (''Failed to delete archive: '' @ error_toString error)))"

text \<open>
  Lines 163 to 181 of \<^verbatim>\<open>saveCache\<close>, which stand before its \<^verbatim>\<open>try\<close> block: the
  compression method, the resolved paths (an empty result is thrown as a plain
  \<^verbatim>\<open>Error\<close>), the temporary directory and the archive's path in it.
\<close>

definition save_prepare ::
  "('w, 'c) env \<Rightarrow> string list \<Rightarrow> ('w, 'c, 'c \<times> string list \<times> string \<times> string) io"
where
  "save_prepare env paths =
     io_bind (invoke GetCompressionMethod (getCompressionMethod env)) (\<lambda>compressionMethod.
     io_bind (invoke (ResolvePaths paths) (resolvePaths env paths)) (\<lambda>cachePaths.
     io_bind (io_log (Debug ''Cache Paths:'')) (\<lambda>_.
     io_bind (io_log (Debug (JSON_stringify env cachePaths))) (\<lambda>_.
     if length cachePaths = 0
     then io_throw (PlainError
            ''Path Validation Error: Path(s) specified in the action for caching do(es) not exist, hence no cache is being saved.'')
     else
       io_bind (invoke CreateTempDirectory (createTempDirectory env)) (\<lambda>archiveFolder.
       io_bind (invoke (GetCacheFileName compressionMethod)
                  (getCacheFileName env compressionMethod)) (\<lambda>cacheFileName.
       let archivePath = path_join env [archiveFolder, cacheFileName] in
       io_bind (io_log (Debug (''Archive Path: '' @ archivePath))) (\<lambda>_.
       io_return (compressionMethod, cachePaths, archiveFolder, archivePath))))))))"

text \<open>
  \<^verbatim>\<open>saveCache\<close>. Once \<^verbatim>\<open>checkPaths\<close> has passed, the argument \<^verbatim>\<open>paths\<close> is a non-empty
  list.
\<close>

definition saveCache ::
  "('w, 'c) env \<Rightarrow> string list option \<Rightarrow> string \<Rightarrow> string option \<Rightarrow> ('w, 'c, int) io"
where
  "saveCache env paths key cacheBasePath =
     io_bind (io_lift (checkPaths paths)) (\<lambda>_.
     io_bind (io_lift (checkKey key)) (\<lambda>_.
     io_bind (save_prepare env (the paths))
       (\<lambda>(compressionMethod, cachePaths, archiveFolder, archivePath).
     io_finally
       (io_catch
          (save_try env cachePaths compressionMethod archiveFolder archivePath key
             cacheBasePath)
          save_catch)
       (save_finally env archivePath))))"

section \<open>A concrete store\<close>

text \<open>
  A small environment on which the operations can be run. Its world is the content of
  one store: the name of every entry directory with the \<^verbatim>\<open>fs.Stats\<close> of the archive in
  it. The store is at \<^verbatim>\<open>/cache\<close>, the archive is called \<^verbatim>\<open>cache.tgz\<close>, the layout is
  \<^verbatim>\<open><storeRoot>/<key>/<archiveFileName>\<close>, and \<^verbatim>\<open>./missing\<close> is the one path that does not
  exist.
\<close>

type_synonym store = "(string \<times> fs_Stats) list"

definition fx_join :: "string list \<Rightarrow> string" where
  "fx_join parts = (case parts of [] \<Rightarrow> ''.'' | p # ps \<Rightarrow> foldl (\<lambda>a b. a @ ''/'' @ b) p ps)"

definition fx_archive :: "string \<Rightarrow> string" where
  "fx_archive dir = fx_join [''/cache'', dir, ''cache.tgz'']"

definition fx_json :: "string list \<Rightarrow> string" where
  "fx_json xs =
     ''['' @ (case xs of [] \<Rightarrow> [] | y # ys \<Rightarrow>
        foldl (\<lambda>a b. a @ '','' @ b) (CHR 0x22 # y @ [CHR 0x22]) (map (\<lambda>x. CHR 0x22 # x @ [CHR 0x22]) ys))
     @ '']''"

text \<open>
  Modelled from the spec: \<^verbatim>\<open>utils.storeCacheFile\<close> is not among the sources. Section 4.4,
  step 7: the archive goes to \<^verbatim>\<open>entryDir(storeRoot, key)\<close>; if the destination already
  holds content for this key, the commit fails with a \<^verbatim>\<open>ReserveCacheError\<close> and the
  entry stays as it is.
\<close>

definition fx_storeCacheFile :: "string \<Rightarrow> string \<Rightarrow> store \<Rightarrow> (js_error + unit) \<times> store" where
  "fx_storeCacheFile archivePath cacheStorePath w =
     (if cacheStorePath \<in> set (map (\<lambda>(dir, s). fx_join [''/cache'', dir]) w)
      then (Inl (ReserveCacheError (''Cache already exists: '' @ cacheStorePath)), w)
      else (Inr (), w @ [(drop 7 cacheStorePath, \<lparr>isFile = True, mtime = 0\<rparr>)]))"

definition fx_env :: "(store, string) env" where
  "fx_env =
     \<lparr> getCompressionMethod = (\<lambda>w. (Inr ''gzip'', w)),
       getRepoCacheStorePath = (\<lambda>base w. (Inr (case base of None \<Rightarrow> ''/cache'' | Some b \<Rightarrow> b), w)),
       getCacheFileName = (\<lambda>method w. (Inr ''cache.tgz'', w)),
       resolvePaths = (\<lambda>paths w. (Inr (filter (\<lambda>p. p \<noteq> ''./missing'') paths), w)),
       createTempDirectory = (\<lambda>w. (Inr ''/tmp/t1'', w)),
       getArchiveFileSizeInBytes = (\<lambda>p w. (Inr 2048, w)),
       storeCacheFile = fx_storeCacheFile,
       unlinkFile = (\<lambda>p w. (Inr (), w)),
       createTar = (\<lambda>dir paths method w. (Inr (), w)),
       listTar = (\<lambda>p method w. (Inr (), w)),
       extractTar = (\<lambda>p method w. (Inr (), w)),
       readdirSync = (\<lambda>dir w. if dir = ''/cache'' then Inr (map fst w)
                                else Inl (PlainError ''ENOENT: no such file or directory'')),
       existsSync = (\<lambda>p w. p \<in> set (map (\<lambda>(dir, s). fx_archive dir) w)),
       statSync = (\<lambda>p w. case map_of (map (\<lambda>(dir, s). (fx_archive dir, s)) w) p of
                             None \<Rightarrow> Inl (PlainError ''ENOENT: no such file or directory'')
                           | Some s \<Rightarrow> Inr s),
       path_join = fx_join,
       JSON_stringify = fx_json,
       isDebug = False \<rparr>"

text \<open>
  A store with two entries under the prefix \<^verbatim>\<open>foo\<close>, the second one newer, and an entry
  \<^verbatim>\<open>build-42\<close> that is newer than both.
\<close>

definition fx_store :: store where
  "fx_store =
     [(''foo-abc'', \<lparr>isFile = True, mtime = 100\<rparr>),
      (''foo-def'', \<lparr>isFile = True, mtime = 200\<rparr>),
      (''build-42'', \<lparr>isFile = True, mtime = 300\<rparr>)]"

text \<open>
  Four variants of the environment: the probe for the compression method fails; the
  store's root cannot be resolved; the archive engine fails on create and on extract;
  deleting a file fails.
\<close>

definition fx_env_root_fails :: "(store, string) env" where
  "fx_env_root_fails =
     fx_env\<lparr>getRepoCacheStorePath :=
       (\<lambda>base w. (Inl (PlainError ''EACCES: permission denied, mkdir /cache''), w))\<rparr>"

definition fx_env_probe_fails :: "(store, string) env" where
  "fx_env_probe_fails =
     fx_env\<lparr>getCompressionMethod := (\<lambda>w. (Inl (PlainError ''spawn zstd EAGAIN''), w))\<rparr>"

definition fx_env_tar_fails :: "(store, string) env" where
  "fx_env_tar_fails =
     fx_env\<lparr>createTar := (\<lambda>dir paths method w. (Inl (PlainError ''Tar failed with error: exit code 2''), w)),
             extractTar := (\<lambda>p method w. (Inl (PlainError ''Tar failed with error: exit code 2''), w))\<rparr>"

definition fx_env_unlink_fails :: "(store, string) env" where
  "fx_env_unlink_fails =
     fx_env\<lparr>unlinkFile := (\<lambda>p w. (Inl (PlainError ''EPERM: operation not permitted''), w))\<rparr>"

section \<open>Reasoning about computations\<close>

text \<open>
  \<open>ev_all P m\<close>: every event of \<open>m\<close> satisfies \<open>P\<close>, from whatever world it starts.
  \<open>ret_all Q m\<close>: every value that \<open>m\<close> returns satisfies \<open>Q\<close>.
\<close>

definition ev_all :: "('c event \<Rightarrow> bool) \<Rightarrow> ('w, 'c, 'a) io \<Rightarrow> bool" where
  "ev_all P m = (\<forall>w. list_all P (snd (snd (m w))))"

definition ret_all :: "('a \<Rightarrow> bool) \<Rightarrow> ('w, 'c, 'a) io \<Rightarrow> bool" where
  "ret_all Q m = (\<forall>w v w' evs. m w = (Inr v, w', evs) \<longrightarrow> Q v)"

lemmas io_defs =
  io_return_def io_throw_def io_lift_def io_read_def io_log_def invoke_def io_bind_def
  io_catch_def io_finally_def

lemmas fx_defs = fx_env_def fx_store_def fx_join_def fx_archive_def fx_json_def
  fx_storeCacheFile_def fx_env_probe_fails_def fx_env_root_fails_def fx_env_tar_fails_def
  fx_env_unlink_fails_def

lemmas model_defs = restoreCache_def restore_prepare_def restore_try_def restore_catch_def
  saveCache_def save_prepare_def save_try_def save_catch_def save_finally_def
  matchedCaches_def checkPaths_def checkKey_def
  ValidationError_def ReserveCacheError_def PlainError_def error_toString_def
  round_MB_def digit_char_def Let_def

section \<open>Properties of the combinators\<close>

lemma ev_all_run: "ev_all P m \<Longrightarrow> m w = (r, w', evs) \<Longrightarrow> list_all P evs"
  by (metis ev_all_def snd_conv)

lemma ev_allD: "ev_all P m \<Longrightarrow> m w = (r, w', evs) \<Longrightarrow> ev \<in> set evs \<Longrightarrow> P ev"
  using ev_all_run [of P m w r w' evs] by (simp add: list_all_iff)

lemma ev_all_return: "ev_all P (io_return x)"
  by (simp add: ev_all_def io_return_def)

lemma ev_all_throw: "ev_all P (io_throw e)"
  by (simp add: ev_all_def io_throw_def)

lemma ev_all_lift: "ev_all P (io_lift r)"
  by (simp add: ev_all_def io_lift_def)

lemma ev_all_read: "ev_all P (io_read f)"
  by (simp add: ev_all_def io_read_def)

lemma ev_all_log: "P ev \<Longrightarrow> ev_all P (io_log ev)"
  by (simp add: ev_all_def io_log_def)

lemma ev_all_invoke: "P (Call c) \<Longrightarrow> ev_all P (invoke c f)"
  by (simp add: ev_all_def invoke_def split: prod.splits)

lemma ev_all_bind:
  assumes "ev_all P m" and "\<And>x. ev_all P (f x)"
  shows "ev_all P (io_bind m f)"
  unfolding ev_all_def
proof
  fix w
  obtain r w1 ev1 where m: "m w = (r, w1, ev1)" by (cases "m w")
  have p1: "list_all P ev1" by (rule ev_all_run [OF assms(1) m])
  show "list_all P (snd (snd (io_bind m f w)))"
  proof (cases r)
    case (Inl e)
    with m p1 show ?thesis by (simp add: io_bind_def)
  next
    case (Inr x)
    obtain r2 w2 ev2 where f: "f x w1 = (r2, w2, ev2)" by (cases "f x w1")
    have "list_all P ev2" by (rule ev_all_run [OF assms(2) f])
    with Inr m p1 f show ?thesis by (simp add: io_bind_def)
  qed
qed

lemma ev_all_catch:
  assumes "ev_all P m" and "\<And>e. ev_all P (h e)"
  shows "ev_all P (io_catch m h)"
  unfolding ev_all_def
proof
  fix w
  obtain r w1 ev1 where m: "m w = (r, w1, ev1)" by (cases "m w")
  have p1: "list_all P ev1" by (rule ev_all_run [OF assms(1) m])
  show "list_all P (snd (snd (io_catch m h w)))"
  proof (cases r)
    case (Inl e)
    obtain r2 w2 ev2 where h: "h e w1 = (r2, w2, ev2)" by (cases "h e w1")
    have "list_all P ev2" by (rule ev_all_run [OF assms(2) h])
    with Inl m p1 h show ?thesis by (simp add: io_catch_def)
  next
    case (Inr x)
    with m p1 show ?thesis by (simp add: io_catch_def)
  qed
qed

lemma ev_all_finally:
  assumes "ev_all P m" and "ev_all P f"
  shows "ev_all P (io_finally m f)"
  unfolding ev_all_def
proof
  fix w
  obtain r w1 ev1 where m: "m w = (r, w1, ev1)" by (cases "m w")
  obtain r2 w2 ev2 where f: "f w1 = (r2, w2, ev2)" by (cases "f w1")
  have "list_all P ev1" and "list_all P ev2"
    by (rule ev_all_run [OF assms(1) m], rule ev_all_run [OF assms(2) f])
  with m f show "list_all P (snd (snd (io_finally m f w)))"
    by (cases r2) (simp_all add: io_finally_def)
qed

lemma ev_all_if:
  "(c \<Longrightarrow> ev_all P a) \<Longrightarrow> (\<not> c \<Longrightarrow> ev_all P b) \<Longrightarrow> ev_all P (if c then a else b)"
  by simp

lemma ev_all_case_prod:
  "(\<And>a b. ev_all P (f a b)) \<Longrightarrow> ev_all P (case x of (a, b) \<Rightarrow> f a b)"
  by (cases x) simp

lemma ev_all_let: "ev_all P (f v) \<Longrightarrow> ev_all P (Let v f)"
  by simp

lemmas ev_all_intros =
  ev_all_if ev_all_case_prod ev_all_let ev_all_return ev_all_throw ev_all_lift ev_all_read
  ev_all_log ev_all_invoke ev_all_bind ev_all_catch ev_all_finally

lemma ret_all_return: "Q x \<Longrightarrow> ret_all Q (io_return x)"
  by (simp add: ret_all_def io_return_def)

lemma ret_all_bind: "(\<And>x. ret_all Q (f x)) \<Longrightarrow> ret_all Q (io_bind m f)"
  unfolding ret_all_def io_bind_def
  by (fastforce split: prod.splits sum.splits)

lemma ret_all_let: "ret_all Q (f v) \<Longrightarrow> ret_all Q (Let v f)"
  by simp

section \<open>Events and values of the parts of the operations\<close>

lemma restore_try_ev:
  assumes "\<And>m. P (Debug m)" "\<And>m. P (Info m)" "\<And>p c. P (Call (ListTar p c))"
    "\<And>p c. P (Call (ExtractTar p c))" "\<And>p. P (Call (GetArchiveFileSizeInBytes p))"
  shows "ev_all P (restore_try env keys cm root fname)"
  unfolding restore_try_def
  by (intro ev_all_intros assms)

lemma restore_prepare_ev:
  assumes "P (Call GetCompressionMethod)" "\<And>b. P (Call (GetRepoCacheStorePath b))"
    "\<And>c. P (Call (GetCacheFileName c))"
  shows "ev_all P (restore_prepare env base)"
  unfolding restore_prepare_def
  by (intro ev_all_intros assms)

lemma restoreCache_ev:
  assumes "\<And>m. P (Debug m)" "\<And>m. P (Info m)" "\<And>m. P (Warning m)"
    "\<And>p c. P (Call (ListTar p c))" "\<And>p c. P (Call (ExtractTar p c))"
    "\<And>p. P (Call (GetArchiveFileSizeInBytes p))" "P (Call GetCompressionMethod)"
    "\<And>b. P (Call (GetRepoCacheStorePath b))" "\<And>c. P (Call (GetCacheFileName c))"
  shows "ev_all P (restoreCache env paths pk rks base)"
  unfolding restoreCache_def restore_catch_def
  by (intro ev_all_intros assms restore_prepare_ev restore_try_ev)

lemma save_prepare_ev:
  assumes "\<And>m. P (Debug m)" "P (Call GetCompressionMethod)" "\<And>ps. P (Call (ResolvePaths ps))"
    "P (Call CreateTempDirectory)" "\<And>c. P (Call (GetCacheFileName c))"
  shows "ev_all P (save_prepare env paths)"
  unfolding save_prepare_def
  by (intro ev_all_intros assms)

lemma save_try_ev:
  assumes "\<And>m. P (Debug m)" "\<And>d ps c. P (Call (CreateTar d ps c))"
    "\<And>p c. P (Call (ListTar p c))" "\<And>p. P (Call (GetArchiveFileSizeInBytes p))"
    "\<And>b. P (Call (GetRepoCacheStorePath b))"
    "\<And>a b. P (Call (StoreCacheFile a b))"
  shows "ev_all P (save_try env cps cm dir ap key base)"
  unfolding save_try_def
  by (intro ev_all_intros assms)

lemma save_finally_ev:
  assumes "\<And>m. P (Debug m)" "\<And>p. P (Call (UnlinkFile p))"
  shows "ev_all P (save_finally env ap)"
  unfolding save_finally_def
  by (intro ev_all_intros assms)

lemma save_finally_eq:
  "save_finally env ap w =
     (case unlinkFile env ap w of
        (Inl e, w') \<Rightarrow>
          (Inr (), w',
           [Call (UnlinkFile ap), Debug (''Failed to delete archive: '' @ error_toString e)])
      | (Inr u, w') \<Rightarrow> (Inr (), w', [Call (UnlinkFile ap)]))"
  by (simp add: save_finally_def io_catch_def invoke_def io_log_def split: prod.splits sum.splits)

lemma saveCache_eq:
  assumes "checkPaths paths = Inr ()" "checkKey key = Inr ()"
    "save_prepare env (the paths) w = (Inr (cm, cps, dir, ap), w1, ev1)"
    "io_catch (save_try env cps cm dir ap key base) save_catch w1 = (r, w2, ev2)"
    "save_finally env ap w2 = (Inr (), w3, ev3)"
  shows "saveCache env paths key base w = (r, w3, ev1 @ ev2 @ ev3)"
  using assms by (simp add: saveCache_def io_bind_def io_lift_def io_finally_def)

lemma save_try_returns_1: "save_try env cps cm dir ap key base w = (Inr v, w', evs) \<Longrightarrow> v = 1"
proof -
  have "ret_all (\<lambda>v. v = 1) (save_try env cps cm dir ap key base)"
    unfolding save_try_def by (intro ret_all_bind ret_all_let ret_all_return) simp
  then show "save_try env cps cm dir ap key base w = (Inr v, w', evs) \<Longrightarrow> v = 1"
    unfolding ret_all_def by blast
qed

lemma restoreCache_no_unlink:
  "Call (UnlinkFile p) \<notin> set (snd (snd (restoreCache env paths pk rks base w)))"
proof -
  have "ev_all (\<lambda>ev. ev \<noteq> Call (UnlinkFile p)) (restoreCache env paths pk rks base)"
    by (rule restoreCache_ev) simp_all
  then show ?thesis by (auto simp: ev_all_def list_all_iff)
qed

section \<open>Properties of the validation\<close>

lemma checkKey_bad:
  "512 < length key \<or> CHR '','' \<in> set key \<Longrightarrow> \<exists>msg. checkKey key = Inl (ValidationError msg)"
  by (auto simp: checkKey_def list_all_iff)

lemma checkKeys_bad:
  "key \<in> set keys \<Longrightarrow> 512 < length key \<or> CHR '','' \<in> set key
    \<Longrightarrow> \<exists>msg. checkKeys keys = Inl (ValidationError msg)"
proof (induction keys)
  case Nil
  then show ?case by simp
next
  case (Cons k ks)
  show ?case
  proof (cases "checkKey k")
    case (Inl e)
    then obtain msg where "e = ValidationError msg"
      by (auto simp: checkKey_def split: if_splits)
    with Inl show ?thesis by auto
  next
    case (Inr u)
    with Cons.prems have "key \<noteq> k" using checkKey_bad [of key] by auto
    with Cons Inr show ?thesis by simp
  qed
qed

lemma checkPaths_bad: "checkPaths paths = Inl e \<Longrightarrow> \<exists>msg. e = ValidationError msg"
  by (auto simp: checkPaths_def split: option.splits if_splits)

section \<open>Properties of the scan\<close>

lemma statAll_Inr:
  "statAll env w ps = Inr cs \<Longrightarrow>
     map filePath cs = ps \<and> (\<forall>c \<in> set cs. statSync env (filePath c) w = Inr (stats c))"
  by (induction ps arbitrary: cs) (auto split: sum.splits)

lemma statAll_total:
  "\<forall>p \<in> set ps. \<exists>s. statSync env p w = Inr s \<Longrightarrow> \<exists>cs. statAll env w ps = Inr cs"
  by (induction ps) (auto split: sum.splits)

lemma sort_key_head_least:
  assumes "sort_key f xs = c # rest"
  shows "\<forall>c' \<in> set xs. f c \<le> f c'"
proof -
  have "sorted (map f (sort_key f xs))" by (rule sorted_sort_key)
  with assms have "\<forall>y \<in> set rest. f c \<le> f y" by simp
  moreover have "set xs = set (c # rest)" using assms set_sort [of f xs] by simp
  ultimately show ?thesis by auto
qed

text \<open>
  The loop over the keys follows their order: keys without a candidate are passed over,
  the first key with a candidate ends the loop, and the keys after it play no part.
  When that key is not the empty string and the \<^verbatim>\<open>try\<close> block completes, it is the
  value returned and its first candidate is the archive extracted.
\<close>

lemma scanKeys_first_match:
  assumes "\<forall>k \<in> set ks1. matchedCaches env w root fname dirEntries k = Inr []"
    and "matchedCaches env w root fname dirEntries key = Inr (c # cs)"
  shows "scanKeys env w root fname dirEntries (ks1 @ key # ks2) = Inr (key, filePath c)"
  using assms by (induction ks1) simp_all

lemma scanKeys_no_match:
  assumes "\<forall>k \<in> set keys. matchedCaches env w root fname dirEntries k = Inr []"
  shows "scanKeys env w root fname dirEntries keys = Inr ('''', '''')"
  using assms by (induction keys) simp_all

lemma restore_try_key_priority:
  assumes "\<forall>k \<in> set ks1. matchedCaches env w root fname dirEntries k = Inr []"
    and "matchedCaches env w root fname dirEntries key = Inr (c # cs)"
    and "readdirSync env root w = Inr dirEntries"
  shows "restore_try env (ks1 @ key # ks2) cm root fname w = restore_try env [key] cm root fname w"
  using scanKeys_first_match [OF assms(1,2), of ks2] assms(2,3)
  by (simp add: restore_try_def io_bind_def io_read_def)

lemma restore_try_selected:
  assumes "\<forall>k \<in> set ks1. matchedCaches env w root fname dirEntries k = Inr []"
    and "matchedCaches env w root fname dirEntries key = Inr (c # cs)"
    and "readdirSync env root w = Inr dirEntries"
    and "key \<noteq> []"
    and "restore_try env (ks1 @ key # ks2) cm root fname w = (Inr r, w', evs)"
  shows "r = Some key \<and> Call (ExtractTar (filePath c) cm) \<in> set evs"
  using scanKeys_first_match [OF assms(1,2), of ks2] assms(3,4,5)
  by (auto simp: restore_try_def io_defs split: prod.splits sum.splits if_splits)

lemma restore_try_empty_key:
  assumes "\<forall>k \<in> set ks1. matchedCaches env w root fname dirEntries k = Inr []"
    and "matchedCaches env w root fname dirEntries [] = Inr (c # cs)"
    and "readdirSync env root w = Inr dirEntries"
  shows "restore_try env (ks1 @ [] # ks2) cm root fname w = (Inr None, w, [])"
  using scanKeys_first_match [OF assms(1,2), of ks2] assms(3)
  by (simp add: restore_try_def io_defs)

section \<open>Properties of the operations\<close>

text \<open>
  C1 (as amended). Once \<^verbatim>\<open>paths\<close> and \<^verbatim>\<open>key\<close> have passed validation, \<^verbatim>\<open>saveCache\<close>
  behaves as follows. An error thrown by a step before the \<^verbatim>\<open>try\<close> block (the
  compression method, path resolution, the empty set of resolved paths, the temporary
  directory, the archive's file name) reaches the caller as it is. After these steps,
  a \<^verbatim>\<open>try\<close> block that completes gives status 1; an error of the \<^verbatim>\<open>try\<close> block named
  \<^verbatim>\<open>ValidationError\<close> is thrown again; any other error of the \<^verbatim>\<open>try\<close> block (archive
  creation, listing, size, store path, commit) gives status -1 and is logged, a
  \<^verbatim>\<open>ReserveCacheError\<close> with \<^verbatim>\<open>core.info\<close> and the others with \<^verbatim>\<open>core.warning\<close>.
\<close>

theorem saveCache_failure_scope:
  assumes "checkPaths paths = Inr ()" and "checkKey key = Inr ()"
  shows "case save_prepare env (the paths) w of
      (Inl e, w1, ev1) \<Rightarrow> saveCache env paths key base w = (Inl e, w1, ev1)
    | (Inr (cm, cps, dir, ap), w1, ev1) \<Rightarrow>
        (case save_try env cps cm dir ap key base w1 of
           (Inr v, w2, ev2) \<Rightarrow> fst (saveCache env paths key base w) = Inr 1
         | (Inl e, w2, ev2) \<Rightarrow>
             if err_name e = ''ValidationError''
             then fst (saveCache env paths key base w) = Inl e
             else fst (saveCache env paths key base w) = Inr (- 1)
               \<and> (if err_name e = ''ReserveCacheError''
                    then Info (''Failed to save: '' @ err_message e)
                    else Warning (''Failed to save: '' @ err_message e))
                   \<in> set (snd (snd (saveCache env paths key base w))))"
  using assms
  by (auto simp: saveCache_def io_bind_def io_lift_def io_finally_def io_catch_def
      save_catch_def save_finally_eq io_throw_def io_log_def io_return_def
      split: prod.splits sum.splits dest: save_try_returns_1)

text \<open>
  The theorem at work: archive creation fails with a plain \<^verbatim>\<open>Error\<close>, and \<^verbatim>\<open>saveCache\<close>
  returns -1 after a warning.
\<close>

theorem saveCache_failure_scope_witness:
  "fst (saveCache fx_env_tar_fails (Some [''./dist'']) ''build-43'' None fx_store) = Inr (- 1)
   \<and> Warning ''Failed to save: Tar failed with error: exit code 2''
       \<in> set (snd (snd (saveCache fx_env_tar_fails (Some [''./dist'']) ''build-43'' None fx_store)))"
  using saveCache_failure_scope [where paths = "Some [''./dist'']" and key = "''build-43''"
      and env = fx_env_tar_fails and w = fx_store and base = None]
  by (simp add: model_defs io_defs fx_defs string_of_nat.simps)

text \<open>
  The claim C1 as stated fails: when no given path exists, \<^verbatim>\<open>resolvePaths\<close> returns the
  empty list and \<^verbatim>\<open>saveCache\<close> throws a plain \<^verbatim>\<open>Error\<close> (line 170), which is not a
  \<^verbatim>\<open>ValidationError\<close>, instead of returning -1.
\<close>

theorem saveCache_empty_resolution_counterexample:
  "saveCache fx_env (Some [''./missing'']) ''build-43'' None fx_store =
     (Inl (JsError ''Error''
        ''Path Validation Error: Path(s) specified in the action for caching do(es) not exist, hence no cache is being saved.''),
      fx_store,
      [Call GetCompressionMethod, Call (ResolvePaths [''./missing'']), Debug ''Cache Paths:'',
       Debug ''[]''])"
  by (simp add: model_defs io_defs fx_defs)

text \<open>
  C2 (as amended). Once \<^verbatim>\<open>paths\<close> and the keys have passed validation, \<^verbatim>\<open>restoreCache\<close>
  behaves as follows. An error thrown by one of the three steps before the \<^verbatim>\<open>try\<close>
  block (the compression method, the store's root, the archive's file name) reaches
  the caller as it is. After these steps, the result of the \<^verbatim>\<open>try\<close> block is the
  result of \<^verbatim>\<open>restoreCache\<close>; an error of the \<^verbatim>\<open>try\<close> block named \<^verbatim>\<open>ValidationError\<close> is
  thrown again; any other error of the \<^verbatim>\<open>try\<close> block (listing the store, scanning,
  listing the archive, its size, extraction) is logged as a warning, and
  \<^verbatim>\<open>restoreCache\<close> returns \<^verbatim>\<open>undefined\<close>.
\<close>

theorem restoreCache_failure_scope:
  assumes "checkPaths paths = Inr ()"
    and "keys = primaryKey # (case restoreKeys of None \<Rightarrow> [] | Some rs \<Rightarrow> rs)"
    and "length keys \<le> 10" and "checkKeys keys = Inr ()"
    and "logs = [Debug ''Resolved Keys:'', Debug (JSON_stringify env keys)]"
  shows "case restore_prepare env cacheBasePath w of
      (Inl e, w1, ev1) \<Rightarrow>
        restoreCache env paths primaryKey restoreKeys cacheBasePath w = (Inl e, w1, logs @ ev1)
    | (Inr (cm, root, fname), w1, ev1) \<Rightarrow>
        (case restore_try env keys cm root fname w1 of
           (Inr r, w2, ev2) \<Rightarrow>
             restoreCache env paths primaryKey restoreKeys cacheBasePath w =
               (Inr r, w2, logs @ ev1 @ ev2)
         | (Inl e, w2, ev2) \<Rightarrow>
             if err_name e = ''ValidationError''
             then restoreCache env paths primaryKey restoreKeys cacheBasePath w =
                    (Inl e, w2, logs @ ev1 @ ev2)
             else restoreCache env paths primaryKey restoreKeys cacheBasePath w =
                    (Inr None, w2,
                     logs @ ev1 @ ev2 @ [Warning (''Failed to restore: '' @ err_message e)]))"
  using assms
  by (auto simp: restoreCache_def io_bind_def io_lift_def io_catch_def Let_def
      restore_catch_def io_throw_def io_log_def io_return_def
      split: prod.splits sum.splits)

text \<open>
  The theorem at work: extraction fails with a plain \<^verbatim>\<open>Error\<close>, and \<^verbatim>\<open>restoreCache\<close>
  returns \<^verbatim>\<open>undefined\<close> after a warning.
\<close>

theorem restoreCache_failure_scope_witness:
  "restoreCache fx_env_tar_fails (Some [''./dist'']) ''build-42'' None None fx_store =
     (Inr None, fx_store,
      [Debug ''Resolved Keys:'', Debug (fx_json [''build-42''])] @
      [Call GetCompressionMethod, Call (GetRepoCacheStorePath None), Call (GetCacheFileName ''gzip'')] @
      [Debug ''Archive Path: /cache/build-42/cache.tgz'',
       Call (GetArchiveFileSizeInBytes ''/cache/build-42/cache.tgz''),
       Info ''Cache Size: ~0 MB (2048 B)'',
       Call (ExtractTar ''/cache/build-42/cache.tgz'' ''gzip'')] @
      [Warning ''Failed to restore: Tar failed with error: exit code 2''])"
  using restoreCache_failure_scope [where paths = "Some [''./dist'']" and keys = "[''build-42'']"
      and primaryKey = "''build-42''" and restoreKeys = None and env = fx_env_tar_fails
      and logs = "[Debug ''Resolved Keys:'', Debug (fx_json [''build-42''])]"
      and cacheBasePath = None and w = fx_store]
  by (simp add: model_defs io_defs fx_defs string_of_nat.simps)

text \<open>
  The claim C2 as stated fails: an error of \<^verbatim>\<open>getCompressionMethod\<close> (line 78) or of
  \<^verbatim>\<open>getRepoCacheStorePath\<close> (line 79), both before the \<^verbatim>\<open>try\<close> block, is not caught;
  \<^verbatim>\<open>restoreCache\<close> throws it, and it is not a \<^verbatim>\<open>ValidationError\<close>.
\<close>

theorem restoreCache_probe_failure_counterexample:
  "restoreCache fx_env_probe_fails (Some [''./dist'']) ''build-42'' None None fx_store =
     (Inl (JsError ''Error'' ''spawn zstd EAGAIN''), fx_store,
      [Debug ''Resolved Keys:'', Debug (fx_json [''build-42'']), Call GetCompressionMethod])
   \<and> restoreCache fx_env_root_fails (Some [''./dist'']) ''build-42'' None None fx_store =
     (Inl (JsError ''Error'' ''EACCES: permission denied, mkdir /cache''), fx_store,
      [Debug ''Resolved Keys:'', Debug (fx_json [''build-42'']), Call GetCompressionMethod,
       Call (GetRepoCacheStorePath None)])"
  by (simp add: model_defs io_defs fx_defs)

text \<open>
  C8. With an empty or a missing \<^verbatim>\<open>paths\<close> argument, \<^verbatim>\<open>restoreCache\<close> and \<^verbatim>\<open>saveCache\<close>
  both throw a \<^verbatim>\<open>ValidationError\<close> before anything else happens: the world is unchanged
  and there is no event, whatever the environment and the other arguments are. The
  outcome is a thrown error (\<open>Inl\<close>), not the value \<^verbatim>\<open>undefined\<close> (\<open>Inr None\<close>) that stands
  for "no cache found".
\<close>

theorem empty_paths_ValidationError:
  "restoreCache env None primaryKey restoreKeys cacheBasePath w =
     (Inl (ValidationError
        ''Path Validation Error: At least one directory or file path is required''), w, [])
   \<and> restoreCache env (Some []) primaryKey restoreKeys cacheBasePath w =
     (Inl (ValidationError
        ''Path Validation Error: At least one directory or file path is required''), w, [])
   \<and> saveCache env None key cacheBasePath w =
     (Inl (ValidationError
        ''Path Validation Error: At least one directory or file path is required''), w, [])
   \<and> saveCache env (Some []) key cacheBasePath w =
     (Inl (ValidationError
        ''Path Validation Error: At least one directory or file path is required''), w, [])
   \<and> fst (restoreCache env None primaryKey restoreKeys cacheBasePath w) \<noteq> Inr None
   \<and> fst (restoreCache env (Some []) primaryKey restoreKeys cacheBasePath w) \<noteq> Inr None"
  by (simp add: restoreCache_def saveCache_def checkPaths_def io_bind_def io_lift_def)

text \<open>
  The theorem at work: the two operations with no path, beside a restore that finds no
  entry and returns \<^verbatim>\<open>undefined\<close>.
\<close>

theorem empty_paths_ValidationError_witness:
  "fst (restoreCache fx_env (Some []) ''build-42'' None None fx_store)
     = Inl (JsError ''ValidationError''
         ''Path Validation Error: At least one directory or file path is required'')
   \<and> fst (saveCache fx_env None ''build-43'' None fx_store)
     = Inl (JsError ''ValidationError''
         ''Path Validation Error: At least one directory or file path is required'')
   \<and> fst (restoreCache fx_env (Some [''./dist'']) ''no-such-key'' None None fx_store) = Inr None"
proof -
  have miss: "fst (restoreCache fx_env (Some [''./dist'']) ''no-such-key'' None None fx_store) = Inr None"
    by (simp add: model_defs io_defs fx_defs)
  from empty_paths_ValidationError [where env = fx_env and primaryKey = "''build-42''"
      and restoreKeys = None and cacheBasePath = None and w = fx_store and key = "''build-43''"]
    miss
  show ?thesis by (simp add: ValidationError_def)
qed

text \<open>
  C5. When the \<^verbatim>\<open>try\<close> block of \<^verbatim>\<open>saveCache\<close> fails with an error named
  \<^verbatim>\<open>ReserveCacheError\<close> (the commit found the key's slot occupied), \<^verbatim>\<open>saveCache\<close> does
  not throw: it returns -1, the message goes to \<^verbatim>\<open>core.info\<close>, and no warning is logged
  in the whole call.
\<close>

theorem saveCache_reservation_conflict:
  assumes "checkPaths paths = Inr ()" and "checkKey key = Inr ()"
    and "save_prepare env (the paths) w = (Inr (cm, cps, dir, ap), w1, ev1)"
    and "save_try env cps cm dir ap key base w1 = (Inl e, w2, ev2)"
    and "err_name e = ''ReserveCacheError''"
  shows "fst (saveCache env paths key base w) = Inr (- 1)
    \<and> Info (''Failed to save: '' @ err_message e) \<in> set (snd (snd (saveCache env paths key base w)))
    \<and> (\<forall>m. Warning m \<notin> set (snd (snd (saveCache env paths key base w))))"
proof -
  obtain w3 ev3 where fin: "save_finally env ap w2 = (Inr (), w3, ev3)"
    by (cases "unlinkFile env ap w2"; cases "fst (unlinkFile env ap w2)")
      (auto simp: save_finally_eq)
  have guarded: "io_catch (save_try env cps cm dir ap key base) save_catch w1 =
      (Inr (- 1), w2, ev2 @ [Info (''Failed to save: '' @ err_message e)])"
    using assms(4,5) by (simp add: io_catch_def save_catch_def io_bind_def io_log_def io_return_def)
  have eq: "saveCache env paths key base w =
      (Inr (- 1), w3, ev1 @ (ev2 @ [Info (''Failed to save: '' @ err_message e)]) @ ev3)"
    by (rule saveCache_eq [OF assms(1,2,3) guarded fin])
  have nw: "\<And>m. Warning m \<notin> set ev1" "\<And>m. Warning m \<notin> set ev2" "\<And>m. Warning m \<notin> set ev3"
  proof -
    fix m
    have "ev_all (\<lambda>ev. ev \<noteq> Warning m) (save_prepare env (the paths))"
      by (rule save_prepare_ev) simp_all
    from ev_allD [OF this assms(3)] show "Warning m \<notin> set ev1" by blast
    have "ev_all (\<lambda>ev. ev \<noteq> Warning m) (save_try env cps cm dir ap key base)"
      by (rule save_try_ev) simp_all
    from ev_allD [OF this assms(4)] show "Warning m \<notin> set ev2" by blast
    have "ev_all (\<lambda>ev. ev \<noteq> Warning m) (save_finally env ap)"
      by (rule save_finally_ev) simp_all
    from ev_allD [OF this fin] show "Warning m \<notin> set ev3" by blast
  qed
  show ?thesis using nw by (simp add: eq)
qed

text \<open>
  The theorem at work on the concrete store: \<^verbatim>\<open>build-42\<close> is already there, the commit
  fails with a \<^verbatim>\<open>ReserveCacheError\<close>, \<^verbatim>\<open>saveCache\<close> returns -1 after an informational
  message, and the store is as it was.
\<close>

theorem saveCache_reservation_conflict_witness:
  "fst (saveCache fx_env (Some [''./dist'']) ''build-42'' None fx_store) = Inr (- 1)
   \<and> Info ''Failed to save: Cache already exists: /cache/build-42''
       \<in> set (snd (snd (saveCache fx_env (Some [''./dist'']) ''build-42'' None fx_store)))
   \<and> (\<forall>m. Warning m \<notin> set (snd (snd (saveCache fx_env (Some [''./dist'']) ''build-42'' None fx_store))))
   \<and> fst (snd (saveCache fx_env (Some [''./dist'']) ''build-42'' None fx_store)) = fx_store"
proof -
  have chk: "checkPaths (Some [''./dist'']) = Inr ()" "checkKey ''build-42'' = Inr ()"
    by (simp_all add: checkPaths_def checkKey_def)
  have prep: "save_prepare fx_env (the (Some [''./dist''])) fx_store =
      (Inr (''gzip'', [''./dist''], ''/tmp/t1'', ''/tmp/t1/cache.tgz''), fx_store,
       [Call GetCompressionMethod, Call (ResolvePaths [''./dist'']), Debug ''Cache Paths:'',
        Debug (fx_json [''./dist'']), Call CreateTempDirectory, Call (GetCacheFileName ''gzip''),
        Debug ''Archive Path: /tmp/t1/cache.tgz''])"
    by (simp add: model_defs io_defs fx_defs)
  have tr: "save_try fx_env [''./dist''] ''gzip'' ''/tmp/t1'' ''/tmp/t1/cache.tgz'' ''build-42'' None
        fx_store =
      (Inl (JsError ''ReserveCacheError'' ''Cache already exists: /cache/build-42''), fx_store,
       [Call (CreateTar ''/tmp/t1'' [''./dist''] ''gzip''),
        Call (GetArchiveFileSizeInBytes ''/tmp/t1/cache.tgz''),
        Debug ''File Size: 2048'', Debug ''Saving Cache (Key: build-42)'',
        Call (GetRepoCacheStorePath None), Debug ''Cache Store Path: undefined'',
        Call (StoreCacheFile ''/tmp/t1/cache.tgz'' ''/cache/build-42'')])"
    by (simp add: model_defs io_defs fx_defs string_of_nat.simps)
  have w: "fst (snd (saveCache fx_env (Some [''./dist'']) ''build-42'' None fx_store)) = fx_store"
    by (simp add: model_defs io_defs fx_defs string_of_nat.simps)
  from saveCache_reservation_conflict [OF chk prep tr] w show ?thesis by simp
qed

text \<open>
  C6. With more than 10 keys (the primary key and the restore keys together),
  \<^verbatim>\<open>restoreCache\<close> throws a \<^verbatim>\<open>ValidationError\<close>. Nothing has been touched by then: the world
  is unchanged, no helper has been called, the only events are the two debug messages
  about the keys, and the outcome is the same in every world and with every other
  environment that prints the keys alike.
\<close>

theorem too_many_keys_ValidationError:
  assumes "10 < length (primaryKey # restoreKeys)"
  shows "restoreCache env paths primaryKey (Some restoreKeys) cacheBasePath w =
      (case checkPaths paths of
         Inl e \<Rightarrow> (Inl e, w, [])
       | Inr u \<Rightarrow>
          (Inl (ValidationError ''Key Validation Error: Keys are limited to a maximum of 10.''),
           w, [Debug ''Resolved Keys:'', Debug (JSON_stringify env (primaryKey # restoreKeys))]))
    \<and> (\<exists>msg. fst (restoreCache env paths primaryKey (Some restoreKeys) cacheBasePath w)
          = Inl (ValidationError msg))
    \<and> (\<forall>c. Call c \<notin> set (snd (snd (restoreCache env paths primaryKey (Some restoreKeys)
          cacheBasePath w))))
    \<and> (JSON_stringify env' = JSON_stringify env \<longrightarrow>
         fst (restoreCache env' paths primaryKey (Some restoreKeys) cacheBasePath w')
           = fst (restoreCache env paths primaryKey (Some restoreKeys) cacheBasePath w)
         \<and> snd (snd (restoreCache env' paths primaryKey (Some restoreKeys) cacheBasePath w'))
           = snd (snd (restoreCache env paths primaryKey (Some restoreKeys) cacheBasePath w)))"
  using assms
  by (auto simp: restoreCache_def checkPaths_def io_bind_def io_lift_def io_log_def io_throw_def
      split: sum.splits option.splits)

text \<open>The theorem at work: eleven keys, the last of which has an entry in the store.\<close>

theorem too_many_keys_ValidationError_witness:
  "restoreCache fx_env (Some [''./dist'']) ''k0''
     (Some [''k1'', ''k2'', ''k3'', ''k4'', ''k5'', ''k6'', ''k7'', ''k8'', ''k9'', ''build-42'']) None fx_store =
     (Inl (ValidationError ''Key Validation Error: Keys are limited to a maximum of 10.''),
      fx_store,
      [Debug ''Resolved Keys:'',
       Debug (JSON_stringify fx_env
         [''k0'', ''k1'', ''k2'', ''k3'', ''k4'', ''k5'', ''k6'', ''k7'', ''k8'', ''k9'', ''build-42''])])
   \<and> fst (restoreCache fx_env_probe_fails (Some [''./dist'']) ''k0''
       (Some [''k1'', ''k2'', ''k3'', ''k4'', ''k5'', ''k6'', ''k7'', ''k8'', ''k9'', ''build-42'']) None [])
     = fst (restoreCache fx_env (Some [''./dist'']) ''k0''
       (Some [''k1'', ''k2'', ''k3'', ''k4'', ''k5'', ''k6'', ''k7'', ''k8'', ''k9'', ''build-42'']) None fx_store)"
proof -
  have len: "10 < length (''k0'' #
      [''k1'', ''k2'', ''k3'', ''k4'', ''k5'', ''k6'', ''k7'', ''k8'', ''k9'', ''build-42''])"
    by simp
  have js: "JSON_stringify fx_env_probe_fails = JSON_stringify fx_env"
    by (simp add: fx_env_probe_fails_def)
  have chk: "checkPaths (Some [''./dist'']) = Inr ()"
    by (simp add: checkPaths_def)
  from too_many_keys_ValidationError [OF len, where env = fx_env and env' = fx_env_probe_fails
      and paths = "Some [''./dist'']" and cacheBasePath = None and w = fx_store and w' = "[]"]
    js chk
  show ?thesis by simp
qed

text \<open>
  C7. A key longer than 512 characters or with a comma makes both operations throw a
  \<^verbatim>\<open>ValidationError\<close>: \<^verbatim>\<open>restoreCache\<close> when it is the primary key or one of the restore
  keys, \<^verbatim>\<open>saveCache\<close> when it is the key to save under; the world is unchanged and no
  helper is called. A key of exactly 512 characters without a comma passes \<^verbatim>\<open>checkKey\<close>.
\<close>

theorem bad_key_ValidationError:
  "(512 < length key \<or> CHR '','' \<in> set key \<longrightarrow>
      (key \<in> set (primaryKey # (case restoreKeys of None \<Rightarrow> [] | Some rs \<Rightarrow> rs)) \<longrightarrow>
         (\<exists>msg. fst (restoreCache env paths primaryKey restoreKeys cacheBasePath w)
            = Inl (ValidationError msg))
         \<and> fst (snd (restoreCache env paths primaryKey restoreKeys cacheBasePath w)) = w
         \<and> (\<forall>c. Call c \<notin> set (snd (snd (restoreCache env paths primaryKey restoreKeys
               cacheBasePath w)))))
      \<and> (\<exists>msg. saveCache env paths key cacheBasePath w = (Inl (ValidationError msg), w, [])))
   \<and> (length key = 512 \<and> CHR '','' \<notin> set key \<longrightarrow> checkKey key = Inr () \<and> checkKeys [key] = Inr ())"
proof (intro conjI impI)
  assume bad: "512 < length key \<or> CHR '','' \<in> set key"
  from checkKey_bad [OF bad] obtain msg where k: "checkKey key = Inl (ValidationError msg)" ..
  show "\<exists>msg. saveCache env paths key cacheBasePath w = (Inl (ValidationError msg), w, [])"
  proof (cases "checkPaths paths")
    case (Inl e)
    with checkPaths_bad show ?thesis
      by (fastforce simp: saveCache_def io_bind_def io_lift_def)
  next
    case (Inr u)
    with k show ?thesis by (auto simp: saveCache_def io_bind_def io_lift_def)
  qed
  assume mem: "key \<in> set (primaryKey # (case restoreKeys of None \<Rightarrow> [] | Some rs \<Rightarrow> rs))"
  from checkKeys_bad [OF mem bad] obtain msg' where
    ks: "checkKeys (primaryKey # (case restoreKeys of None \<Rightarrow> [] | Some rs \<Rightarrow> rs))
          = Inl (ValidationError msg')" ..
  show "\<exists>msg. fst (restoreCache env paths primaryKey restoreKeys cacheBasePath w)
            = Inl (ValidationError msg)"
  proof (cases "checkPaths paths")
    case (Inl e)
    with checkPaths_bad show ?thesis
      by (fastforce simp: restoreCache_def io_bind_def io_lift_def)
  next
    case (Inr u)
    with ks show ?thesis
      by (auto simp: restoreCache_def io_bind_def io_lift_def io_log_def io_throw_def Let_def)
  qed
  show "fst (snd (restoreCache env paths primaryKey restoreKeys cacheBasePath w)) = w"
    using ks
    by (cases "checkPaths paths")
      (simp_all add: restoreCache_def io_bind_def io_lift_def io_log_def io_throw_def Let_def)
  show "\<forall>c. Call c \<notin> set (snd (snd (restoreCache env paths primaryKey restoreKeys
               cacheBasePath w)))"
    using ks
    by (cases "checkPaths paths")
      (simp_all add: restoreCache_def io_bind_def io_lift_def io_log_def io_throw_def Let_def)
next
  assume "length key = 512 \<and> CHR '','' \<notin> set key"
  then show "checkKey key = Inr ()" "checkKeys [key] = Inr ()"
    by (auto simp: checkKey_def list_all_iff)
qed

text \<open>
  The theorem at work: a restore key with a comma, a key of 513 characters for
  \<^verbatim>\<open>saveCache\<close>, and a key of 512 characters that passes.
\<close>

theorem bad_key_ValidationError_witness:
  "(\<exists>msg. fst (restoreCache fx_env (Some [''./dist'']) ''build-42'' (Some [''a,b'']) None fx_store)
      = Inl (ValidationError msg))
   \<and> (\<exists>msg. saveCache fx_env (Some [''./dist'']) (replicate 513 (CHR ''k'')) None fx_store
      = (Inl (ValidationError msg), fx_store, []))
   \<and> checkKey (replicate 512 (CHR ''k'')) = Inr ()"
  using bad_key_ValidationError [where key = "''a,b''" and primaryKey = "''build-42''"
      and restoreKeys = "Some [''a,b'']" and env = fx_env and paths = "Some [''./dist'']"
      and cacheBasePath = None and w = fx_store]
    bad_key_ValidationError [where key = "replicate 513 (CHR ''k'')" and env = fx_env
      and paths = "Some [''./dist'']" and cacheBasePath = None and w = fx_store]
    bad_key_ValidationError [where key = "replicate 512 (CHR ''k'')"]
  by simp

text \<open>
  C10. \<^verbatim>\<open>restoreCache\<close> looks at its \<^verbatim>\<open>paths\<close> argument only to check that it is not
  empty: with the same keys, base path, environment and world, two non-empty lists of
  paths give the same result, the same world afterwards and the same events (the same
  archive is selected and extracted).
\<close>

theorem restoreCache_ignores_paths:
  assumes "paths1 \<noteq> []" and "paths2 \<noteq> []"
  shows "restoreCache env (Some paths1) primaryKey restoreKeys cacheBasePath w =
         restoreCache env (Some paths2) primaryKey restoreKeys cacheBasePath w"
  using assms by (simp add: restoreCache_def checkPaths_def io_bind_def io_lift_def)

text \<open>The theorem at work: two different lists of paths restore the same entry.\<close>

theorem restoreCache_ignores_paths_witness:
  "restoreCache fx_env (Some [''./dist'']) ''foo'' None None fx_store =
   restoreCache fx_env (Some [''/etc/passwd'', ''node_modules'']) ''foo'' None None fx_store
   \<and> fst (restoreCache fx_env (Some [''./dist'']) ''foo'' None None fx_store) = Inr (Some ''foo'')"
proof -
  have "fst (restoreCache fx_env (Some [''./dist'']) ''foo'' None None fx_store) = Inr (Some ''foo'')"
    by (simp add: model_defs io_defs fx_defs string_of_nat.simps)
  with restoreCache_ignores_paths [where ?paths1.0 = "[''./dist'']"
      and ?paths2.0 = "[''/etc/passwd'', ''node_modules'']" and env = fx_env
      and primaryKey = "''foo''" and restoreKeys = None and cacheBasePath = None and w = fx_store]
  show ?thesis by simp
qed

text \<open>
  C9. \<^verbatim>\<open>restoreCache\<close> never calls \<^verbatim>\<open>unlinkFile\<close> (the deletion in its \<^verbatim>\<open>finally\<close> block
  is commented out). \<^verbatim>\<open>saveCache\<close>, once the archive's temporary path is known, calls
  \<^verbatim>\<open>unlinkFile\<close> on it as its last step whatever the outcome \<open>r\<close> of the \<^verbatim>\<open>try\<close> and
  \<^verbatim>\<open>catch\<close> blocks is (status 1, status -1 or a thrown error); \<open>r\<close> is the outcome of
  \<^verbatim>\<open>saveCache\<close> whether the deletion succeeds or fails, and a failed deletion only adds
  a debug message.
\<close>

theorem archive_cleanup_asymmetry:
  "(\<forall>p. Call (UnlinkFile p)
        \<notin> set (snd (snd (restoreCache env paths primaryKey restoreKeys cacheBasePath w))))
   \<and> (checkPaths paths = Inr () \<and> checkKey key = Inr ()
       \<and> save_prepare env (the paths) w = (Inr (cm, cps, dir, ap), w1, ev1)
       \<and> io_catch (save_try env cps cm dir ap key cacheBasePath) save_catch w1 = (r, w2, ev2)
       \<and> unlinkFile env ap w2 = (u, w3)
       \<longrightarrow> saveCache env paths key cacheBasePath w =
             (r, w3,
              ev1 @ ev2 @ Call (UnlinkFile ap) #
                (case u of
                   Inl e \<Rightarrow> [Debug (''Failed to delete archive: '' @ error_toString e)]
                 | Inr x \<Rightarrow> [])))"
proof (intro conjI impI allI)
  fix p
  show "Call (UnlinkFile p)
        \<notin> set (snd (snd (restoreCache env paths primaryKey restoreKeys cacheBasePath w)))"
    by (rule restoreCache_no_unlink)
next
  assume a: "checkPaths paths = Inr () \<and> checkKey key = Inr ()
       \<and> save_prepare env (the paths) w = (Inr (cm, cps, dir, ap), w1, ev1)
       \<and> io_catch (save_try env cps cm dir ap key cacheBasePath) save_catch w1 = (r, w2, ev2)
       \<and> unlinkFile env ap w2 = (u, w3)"
  then have fin: "save_finally env ap w2 =
      (Inr (), w3, Call (UnlinkFile ap) #
         (case u of
            Inl e \<Rightarrow> [Debug (''Failed to delete archive: '' @ error_toString e)]
          | Inr x \<Rightarrow> []))"
    by (cases u) (simp_all add: save_finally_eq)
  from a have a1: "checkPaths paths = Inr ()" and a2: "checkKey key = Inr ()"
    and a3: "save_prepare env (the paths) w = (Inr (cm, cps, dir, ap), w1, ev1)"
    and a4: "io_catch (save_try env cps cm dir ap key cacheBasePath) save_catch w1 = (r, w2, ev2)"
    by simp_all
  have "saveCache env paths key cacheBasePath w =
      (r, w3, ev1 @ ev2 @ (Call (UnlinkFile ap) #
         (case u of
            Inl e \<Rightarrow> [Debug (''Failed to delete archive: '' @ error_toString e)]
          | Inr x \<Rightarrow> [])))"
    by (rule saveCache_eq [OF a1 a2 a3 a4 fin])
  then show "saveCache env paths key cacheBasePath w =
             (r, w3,
              ev1 @ ev2 @ Call (UnlinkFile ap) #
                (case u of
                   Inl e \<Rightarrow> [Debug (''Failed to delete archive: '' @ error_toString e)]
                 | Inr x \<Rightarrow> []))" by simp
qed

text \<open>
  The theorem at work: a restore that extracts an archive and deletes nothing, and a
  successful save in an environment where the deletion fails.
\<close>

theorem archive_cleanup_asymmetry_witness:
  "Call (ExtractTar ''/cache/build-42/cache.tgz'' ''gzip'')
      \<in> set (snd (snd (restoreCache fx_env (Some [''./dist'']) ''build-42'' None None fx_store)))
   \<and> (\<forall>p. Call (UnlinkFile p)
      \<notin> set (snd (snd (restoreCache fx_env (Some [''./dist'']) ''build-42'' None None fx_store))))
   \<and> saveCache fx_env_unlink_fails (Some [''./dist'']) ''build-43'' None fx_store =
       (Inr 1, fx_store @ [(''build-43'', \<lparr>isFile = True, mtime = 0\<rparr>)],
        [Call GetCompressionMethod, Call (ResolvePaths [''./dist'']), Debug ''Cache Paths:'',
         Debug (fx_json [''./dist'']), Call CreateTempDirectory, Call (GetCacheFileName ''gzip''),
         Debug ''Archive Path: /tmp/t1/cache.tgz''] @
        [Call (CreateTar ''/tmp/t1'' [''./dist''] ''gzip''),
         Call (GetArchiveFileSizeInBytes ''/tmp/t1/cache.tgz''),
         Debug ''File Size: 2048'', Debug ''Saving Cache (Key: build-43)'',
         Call (GetRepoCacheStorePath None), Debug ''Cache Store Path: undefined'',
         Call (StoreCacheFile ''/tmp/t1/cache.tgz'' ''/cache/build-43'')] @
        [Call (UnlinkFile ''/tmp/t1/cache.tgz''),
         Debug ''Failed to delete archive: Error: EPERM: operation not permitted''])"
proof -
  have ex: "Call (ExtractTar ''/cache/build-42/cache.tgz'' ''gzip'')
      \<in> set (snd (snd (restoreCache fx_env (Some [''./dist'']) ''build-42'' None None fx_store)))"
    by (simp add: model_defs io_defs fx_defs string_of_nat.simps)
  have chk: "checkPaths (Some [''./dist'']) = Inr ()" "checkKey ''build-43'' = Inr ()"
    by (simp_all add: checkPaths_def checkKey_def)
  have prep: "save_prepare fx_env_unlink_fails (the (Some [''./dist''])) fx_store =
      (Inr (''gzip'', [''./dist''], ''/tmp/t1'', ''/tmp/t1/cache.tgz''), fx_store,
       [Call GetCompressionMethod, Call (ResolvePaths [''./dist'']), Debug ''Cache Paths:'',
        Debug (fx_json [''./dist'']), Call CreateTempDirectory, Call (GetCacheFileName ''gzip''),
        Debug ''Archive Path: /tmp/t1/cache.tgz''])"
    by (simp add: model_defs io_defs fx_defs)
  have tr: "io_catch (save_try fx_env_unlink_fails [''./dist''] ''gzip'' ''/tmp/t1''
        ''/tmp/t1/cache.tgz'' ''build-43'' None) save_catch fx_store =
      (Inr 1, fx_store @ [(''build-43'', \<lparr>isFile = True, mtime = 0\<rparr>)],
       [Call (CreateTar ''/tmp/t1'' [''./dist''] ''gzip''),
        Call (GetArchiveFileSizeInBytes ''/tmp/t1/cache.tgz''),
        Debug ''File Size: 2048'', Debug ''Saving Cache (Key: build-43)'',
        Call (GetRepoCacheStorePath None), Debug ''Cache Store Path: undefined'',
        Call (StoreCacheFile ''/tmp/t1/cache.tgz'' ''/cache/build-43'')])"
    by (simp add: model_defs io_defs fx_defs string_of_nat.simps)
  have un: "unlinkFile fx_env_unlink_fails ''/tmp/t1/cache.tgz''
        (fx_store @ [(''build-43'', \<lparr>isFile = True, mtime = 0\<rparr>)]) =
      (Inl (PlainError ''EPERM: operation not permitted''),
       fx_store @ [(''build-43'', \<lparr>isFile = True, mtime = 0\<rparr>)])"
    by (simp add: fx_env_unlink_fails_def)
  from archive_cleanup_asymmetry [where env = fx_env and paths = "Some [''./dist'']"
      and primaryKey = "''build-42''" and restoreKeys = None and cacheBasePath = None
      and w = fx_store]
  have a: "\<forall>p. Call (UnlinkFile p)
      \<notin> set (snd (snd (restoreCache fx_env (Some [''./dist'']) ''build-42'' None None fx_store)))"
    by blast
  from archive_cleanup_asymmetry [where env = fx_env_unlink_fails and paths = "Some [''./dist'']"
      and key = "''build-43''" and cacheBasePath = None and w = fx_store
      and primaryKey = "''x''" and restoreKeys = None] chk prep tr un
  have b: "saveCache fx_env_unlink_fails (Some [''./dist'']) ''build-43'' None fx_store =
       (Inr 1, fx_store @ [(''build-43'', \<lparr>isFile = True, mtime = 0\<rparr>)],
        [Call GetCompressionMethod, Call (ResolvePaths [''./dist'']), Debug ''Cache Paths:'',
         Debug (fx_json [''./dist'']), Call CreateTempDirectory, Call (GetCacheFileName ''gzip''),
         Debug ''Archive Path: /tmp/t1/cache.tgz''] @
        [Call (CreateTar ''/tmp/t1'' [''./dist''] ''gzip''),
         Call (GetArchiveFileSizeInBytes ''/tmp/t1/cache.tgz''),
         Debug ''File Size: 2048'', Debug ''Saving Cache (Key: build-43)'',
         Call (GetRepoCacheStorePath None), Debug ''Cache Store Path: undefined'',
         Call (StoreCacheFile ''/tmp/t1/cache.tgz'' ''/cache/build-43'')] @
        [Call (UnlinkFile ''/tmp/t1/cache.tgz''),
         Debug ''Failed to delete archive: Error: EPERM: operation not permitted''])"
    by (simp add: PlainError_def error_toString_def)
  from ex a b show ?thesis by blast
qed

text \<open>
  C4. For one key, if \<^verbatim>\<open>statSync\<close> succeeds on every candidate path that exists, the
  scan completes, and its candidates are exactly the archive paths of the directory
  names that start with the key, whose archive exists and is a regular file; each
  candidate carries the \<^verbatim>\<open>fs.Stats\<close> of its path; the first candidate, which is the one
  selected, has a modification time not older than any other candidate's.
\<close>

theorem matchedCaches_latest_regular_file:
  assumes "\<forall>d \<in> set dirEntries.
      prefix key d \<and> existsSync env (path_join env [root, d, fname]) w
        \<longrightarrow> (\<exists>s. statSync env (path_join env [root, d, fname]) w = Inr s)"
  shows "\<exists>cs. matchedCaches env w root fname dirEntries key = Inr cs
    \<and> set (map filePath cs) =
        {p. \<exists>d \<in> set dirEntries. prefix key d \<and> p = path_join env [root, d, fname]
              \<and> existsSync env p w \<and> (\<exists>s. statSync env p w = Inr s \<and> isFile s)}
    \<and> (\<forall>c \<in> set cs. statSync env (filePath c) w = Inr (stats c))
    \<and> (\<forall>c rest. cs = c # rest \<longrightarrow> (\<forall>c' \<in> set cs. mtime (stats c') \<le> mtime (stats c)))
    \<and> scanKeys env w root fname dirEntries [key] =
        Inr (case cs of [] \<Rightarrow> ('''', '''') | c # rest \<Rightarrow> (key, filePath c))"
proof -
  define ps where "ps = filter (\<lambda>it. existsSync env it w)
      (map (\<lambda>dir. path_join env [root, dir, fname]) (filter (\<lambda>it. prefix key it) dirEntries))"
  have "\<forall>p \<in> set ps. \<exists>s. statSync env p w = Inr s"
    using assms by (auto simp: ps_def)
  from statAll_total [OF this] obtain infos where infos: "statAll env w ps = Inr infos" ..
  from statAll_Inr [OF infos] have paths: "map filePath infos = ps"
    and st: "\<forall>c \<in> set infos. statSync env (filePath c) w = Inr (stats c)" by simp_all
  define cs where "cs = sort_key (\<lambda>a. - mtime (stats a)) (filter (\<lambda>it. isFile (stats it)) infos)"
  have mc: "matchedCaches env w root fname dirEntries key = Inr cs"
    using infos by (simp add: matchedCaches_def ps_def cs_def)
  have set_cs: "set cs = {c \<in> set infos. isFile (stats c)}"
    by (auto simp: cs_def)
  have set_ps: "set ps = {p. \<exists>d \<in> set dirEntries. prefix key d
      \<and> p = path_join env [root, d, fname] \<and> existsSync env p w}"
    by (auto simp: ps_def)
  have fp: "set (map filePath cs) =
        {p. \<exists>d \<in> set dirEntries. prefix key d \<and> p = path_join env [root, d, fname]
              \<and> existsSync env p w \<and> (\<exists>s. statSync env p w = Inr s \<and> isFile s)}"
    (is "?L = ?R")
  proof (intro set_eqI iffI)
    fix p assume "p \<in> ?L"
    then obtain c where c: "c \<in> set infos" "isFile (stats c)" "p = filePath c"
      using set_cs by auto
    then have "p \<in> set ps" using paths by (metis image_eqI list.set_map)
    with c st set_ps show "p \<in> ?R" by auto
  next
    fix p assume p: "p \<in> ?R"
    then have "p \<in> set ps" using set_ps by auto
    then obtain c where c: "c \<in> set infos" "filePath c = p"
      using paths by (metis (no_types, lifting) imageE list.set_map)
    with st have "statSync env p w = Inr (stats c)" by auto
    with p have "isFile (stats c)" by auto
    with c set_cs show "p \<in> ?L" by force
  qed
  have st_cs: "\<forall>c \<in> set cs. statSync env (filePath c) w = Inr (stats c)"
    using st set_cs by auto
  have latest: "\<forall>c rest. cs = c # rest \<longrightarrow> (\<forall>c' \<in> set cs. mtime (stats c') \<le> mtime (stats c))"
  proof (intro allI impI ballI)
    fix c rest c' assume eq: "cs = c # rest" and mem: "c' \<in> set cs"
    from eq have "sort_key (\<lambda>a. - mtime (stats a)) (filter (\<lambda>it. isFile (stats it)) infos) = c # rest"
      by (simp add: cs_def)
    from sort_key_head_least [OF this] mem
    show "mtime (stats c') \<le> mtime (stats c)" by (auto simp: cs_def)
  qed
  have sel: "scanKeys env w root fname dirEntries [key] =
        Inr (case cs of [] \<Rightarrow> ('''', '''') | c # rest \<Rightarrow> (key, filePath c))"
    using mc by (cases cs) simp_all
  from mc fp st_cs latest sel show ?thesis by blast
qed

text \<open>
  The theorem at work: of the two entries under \<^verbatim>\<open>foo\<close>, the newer one is selected.
\<close>

theorem matchedCaches_latest_regular_file_witness:
  "matchedCaches fx_env fx_store ''/cache'' ''cache.tgz'' [''foo-abc'', ''foo-def'', ''build-42''] ''foo''
     = Inr [\<lparr>filePath = ''/cache/foo-def/cache.tgz'', stats = \<lparr>isFile = True, mtime = 200\<rparr>\<rparr>,
            \<lparr>filePath = ''/cache/foo-abc/cache.tgz'', stats = \<lparr>isFile = True, mtime = 100\<rparr>\<rparr>]
   \<and> scanKeys fx_env fx_store ''/cache'' ''cache.tgz'' [''foo-abc'', ''foo-def'', ''build-42''] [''foo'']
     = Inr (''foo'', ''/cache/foo-def/cache.tgz'')"
proof -
  have mc: "matchedCaches fx_env fx_store ''/cache'' ''cache.tgz'' [''foo-abc'', ''foo-def'', ''build-42''] ''foo''
     = Inr [\<lparr>filePath = ''/cache/foo-def/cache.tgz'', stats = \<lparr>isFile = True, mtime = 200\<rparr>\<rparr>,
            \<lparr>filePath = ''/cache/foo-abc/cache.tgz'', stats = \<lparr>isFile = True, mtime = 100\<rparr>\<rparr>]"
    by (simp add: model_defs fx_defs)
  have hyp: "\<forall>d \<in> set [''foo-abc'', ''foo-def'', ''build-42''].
      prefix ''foo'' d \<and> existsSync fx_env (path_join fx_env [''/cache'', d, ''cache.tgz'']) fx_store
        \<longrightarrow> (\<exists>s. statSync fx_env (path_join fx_env [''/cache'', d, ''cache.tgz'']) fx_store = Inr s)"
    by (simp add: fx_defs)
  from matchedCaches_latest_regular_file [OF hyp] mc show ?thesis by auto
qed

text \<open>
  C3. The keys are tried in the order given (see \<open>scanKeys_first_match\<close> and
  \<open>restore_try_selected\<close> above), but a match under the empty key is lost: the loop
  records the match in \<^verbatim>\<open>matchedKey\<close>, whose initial value \<^verbatim>\<open>""\<close> also means "no match",
  so line 105 takes the match for a miss. Here the primary key \<^verbatim>\<open>""\<close> passes validation
  and, being a prefix of every name, matches all three entries; the loop stops at it
  with the archive of \<^verbatim>\<open>build-42\<close>; \<^verbatim>\<open>restoreCache\<close> returns \<^verbatim>\<open>undefined\<close> and extracts
  nothing.
\<close>

theorem restoreCache_empty_key_reports_no_cache:
  "scanKeys fx_env fx_store ''/cache'' ''cache.tgz'' [''foo-abc'', ''foo-def'', ''build-42'']
      ['''', ''foo''] = Inr ('''', ''/cache/build-42/cache.tgz'')
   \<and> restoreCache fx_env (Some [''./dist'']) '''' (Some [''foo'']) None fx_store =
      (Inr None, fx_store,
       [Debug ''Resolved Keys:'', Debug (fx_json ['''', ''foo'']), Call GetCompressionMethod,
        Call (GetRepoCacheStorePath None), Call (GetCacheFileName ''gzip'')])"
  by (simp add: model_defs io_defs fx_defs)

end
